theory Spec2Isabelle
  imports Complex_Main "HOL-Library.Word"
begin

section \<open>Arrays, tensors and errors\<close>

text \<open>
  The program under verification is \<^verbatim>\<open>helpmotion.py\<close>: the Middlebury colour encoding of
  a dense motion field (\<^verbatim>\<open>make_colorwheel\<close>, \<^verbatim>\<open>flow_compute_color\<close>, \<^verbatim>\<open>flow_to_color\<close>,
  \<^verbatim>\<open>flow2img\<close>).

  Floating-point numbers are modelled by the reals: every arithmetic operation is exact and
  there are no NaN and no infinities. The one place where the source would leave the reals
  (division by \<open>rad_max + epsilon = 0\<close>) is an explicit outcome \<open>NonFinite\<close> of the model.
  The elements of a motion field keep the sign of a zero, which \<^verbatim>\<open>np.arctan2\<close> reads: they
  are values of the type \<open>np_float\<close> below. numpy arrays are nested lists in row-major order,
  a torch tensor is its shape together with its elements in logical row-major order, and
  an exception is the left summand of a result.
\<close>

datatype error = AssertionError | ValueError | IndexError | NonFinite

type_synonym u8 = "8 word"

text \<open>
  A float with its signed zero: \<open>Fl r\<close> is the float of value \<open>r\<close>, with \<open>Fl 0\<close> the positive
  zero, and \<open>NegZero\<close> is the negative zero \<^verbatim>\<open>-0.0\<close>. \<open>fval\<close> is the value, \<open>signbit\<close> the sign
  bit, \<open>fneg\<close> the negation \<^verbatim>\<open>-x\<close> and \<open>fdiv x s\<close> the quotient \<^verbatim>\<open>x / s\<close> by a scalar \<open>s\<close> that is
  not zero: a zero divided by a negative scalar changes its sign.
\<close>

datatype np_float = NegZero | Fl real

fun fval :: "np_float \<Rightarrow> real" where
  "fval NegZero = 0"
| "fval (Fl r) = r"

fun signbit :: "np_float \<Rightarrow> bool" where
  "signbit NegZero = True"
| "signbit (Fl r) = (r < 0)"

fun fneg :: "np_float \<Rightarrow> np_float" where
  "fneg NegZero = Fl 0"
| "fneg (Fl r) = (if r = 0 then NegZero else Fl (- r))"

fun fdiv :: "np_float \<Rightarrow> real \<Rightarrow> np_float" where
  "fdiv NegZero s = (if 0 < s then NegZero else Fl 0)"
| "fdiv (Fl r) s = (if r = 0 then (if 0 < s then Fl 0 else NegZero) else Fl (r / s))"

record 'a tensor =
  shape :: "nat list"
  data :: "'a list"

definition wf_tensor :: "'a tensor \<Rightarrow> bool" where
  "wf_tensor t \<longleftrightarrow> length (data t) = prod_list (shape t)"

text \<open>Element \<open>[n, c, h, w]\<close> of a tensor of four dimensions.\<close>

definition at4 :: "'a tensor \<Rightarrow> nat \<Rightarrow> nat \<Rightarrow> nat \<Rightarrow> nat \<Rightarrow> 'a" where
  "at4 t n c h w = data t ! (((n * (shape t ! 1) + c) * (shape t ! 2) + h) * (shape t ! 3) + w)"

text \<open>Elementwise operations on arrays of two dimensions.\<close>

definition ew1 :: "('a \<Rightarrow> 'b) \<Rightarrow> 'a list list \<Rightarrow> 'b list list" where
  "ew1 f = map (map f)"

definition ew2 :: "('a \<Rightarrow> 'b \<Rightarrow> 'c) \<Rightarrow> 'a list list \<Rightarrow> 'b list list \<Rightarrow> 'c list list" where
  "ew2 f = map2 (map2 f)"

definition same_shape :: "'a list list \<Rightarrow> 'b list list \<Rightarrow> bool" where
  "same_shape a b \<longleftrightarrow> map length a = map length b"

text \<open>\<^verbatim>\<open>np.clip(x, lo, hi)\<close> is \<^verbatim>\<open>minimum(maximum(x, lo), hi)\<close>.\<close>

definition np_clip :: "real \<Rightarrow> real \<Rightarrow> real \<Rightarrow> real" where
  "np_clip lo hi x = min (max x lo) hi"

text \<open>The same on an element of a field, by its value.\<close>

definition clip_float :: "real \<Rightarrow> real \<Rightarrow> np_float \<Rightarrow> np_float" where
  "clip_float lo hi x = Fl (np_clip lo hi (fval x))"

text \<open>
  Conversion of a float to \<^verbatim>\<open>uint8\<close> (\<^verbatim>\<open>astype(np.uint8)\<close>, and the store of a float into
  a \<^verbatim>\<open>uint8\<close> array): the fraction is dropped towards zero and the integer is reduced
  modulo 256.
\<close>

definition c_trunc :: "real \<Rightarrow> int" where
  "c_trunc x = (if 0 \<le> x then \<lfloor>x\<rfloor> else \<lceil>x\<rceil>)"

definition astype_uint8 :: "real \<Rightarrow> u8" where
  "astype_uint8 x = word_of_int (c_trunc x)"

text \<open>
  Boolean-mask indexing of numpy: \<^verbatim>\<open>x[idx]\<close> is the one-dimensional array of the elements
  of \<open>x\<close> at which \<open>idx\<close> holds, in row-major order, and \<^verbatim>\<open>x[idx] = vals\<close> stores the
  elements of \<open>vals\<close>, in that order, at those places.
\<close>

fun mask_get :: "bool list \<Rightarrow> 'a list \<Rightarrow> 'a list" where
  "mask_get (b # bs) (x # xs) = (if b then x # mask_get bs xs else mask_get bs xs)"
| "mask_get _ _ = []"

fun mask_set :: "bool list \<Rightarrow> 'a list \<Rightarrow> 'a list \<Rightarrow> 'a list" where
  "mask_set (b # bs) (x # xs) vals =
     (if b then hd vals # mask_set bs xs (tl vals) else x # mask_set bs xs vals)"
| "mask_set _ xs _ = xs"

fun unflatten :: "'b list list \<Rightarrow> 'a list \<Rightarrow> 'a list list" where
  "unflatten [] xs = []"
| "unflatten (r # rs) xs = take (length r) xs # unflatten rs (drop (length r) xs)"

definition np_mask_get :: "bool list list \<Rightarrow> 'a list list \<Rightarrow> 'a list" where
  "np_mask_get idx x = mask_get (concat idx) (concat x)"

definition np_mask_set :: "bool list list \<Rightarrow> 'a list list \<Rightarrow> 'a list \<Rightarrow> 'a list list" where
  "np_mask_set idx x vals = unflatten x (mask_set (concat idx) (concat x) vals)"

text \<open>
  Integer-array indexing \<^verbatim>\<open>tmp[k]\<close>: an index in \<open>[-n, n)\<close> is valid, a negative one counts
  from the end; any other index raises \<^verbatim>\<open>IndexError\<close>.
\<close>

definition index_ok :: "nat \<Rightarrow> int \<Rightarrow> bool" where
  "index_ok n k \<longleftrightarrow> - int n \<le> k \<and> k < int n"

definition np_index :: "'a list \<Rightarrow> int \<Rightarrow> 'a" where
  "np_index tmp k = (if k < 0 then tmp ! nat (k + int (length tmp)) else tmp ! nat k)"

text \<open>
  \<^verbatim>\<open>np.arctan2(y, x)\<close>, the \<^verbatim>\<open>atan2\<close> of C: the angle of the point \<open>(x, y)\<close> in \<open>[-\<pi>, \<pi>]\<close>. Where
  \<open>y\<close> is a zero the result is a zero if the sign bit of \<open>x\<close> is clear, and \<open>\<pi>\<close> with the sign
  of \<open>y\<close> if it is set: \<^verbatim>\<open>arctan2(0.0, -1.0)\<close> is \<open>\<pi>\<close> and \<^verbatim>\<open>arctan2(-0.0, -1.0)\<close> is \<open>-\<pi>\<close>,
  \<^verbatim>\<open>arctan2(-0.0, -0.0)\<close> is \<open>-\<pi>\<close> and \<^verbatim>\<open>arctan2(-0.0, 0.0)\<close> is a zero. Where \<open>y\<close> is not zero
  and \<open>x\<close> is a zero of either sign the result is \<open>\<pi>/2\<close> with the sign of \<open>y\<close>.
\<close>

definition arctan2 :: "np_float \<Rightarrow> np_float \<Rightarrow> real" where
  "arctan2 y x =
     (if fval y = 0 then
        (if signbit x then (if y = NegZero then - pi else pi) else 0)
      else if 0 < fval x then arctan (fval y / fval x)
      else if fval x < 0 then
        (if 0 < fval y then arctan (fval y / fval x) + pi else arctan (fval y / fval x) - pi)
      else if 0 < fval y then pi / 2
      else - pi / 2)"

section \<open>make_colorwheel\<close>

definition np_zeros2 :: "nat \<Rightarrow> nat \<Rightarrow> real list list" where
  "np_zeros2 r c = replicate r (replicate c 0)"

definition np_arange :: "nat \<Rightarrow> nat \<Rightarrow> real list" where
  "np_arange a b = map real [a..<b]"

text \<open>\<^verbatim>\<open>a[lo:hi, j] = vals\<close>, where \<open>vals\<close> has \<open>hi - lo\<close> elements.\<close>

definition set_col_slice ::
  "nat \<Rightarrow> nat \<Rightarrow> nat \<Rightarrow> real list \<Rightarrow> real list list \<Rightarrow> real list list" where
  "set_col_slice lo hi j vals a =
     map (\<lambda>r. if lo \<le> r \<and> r < hi then (a ! r)[j := vals ! (r - lo)] else a ! r) [0..<length a]"

text \<open>\<^verbatim>\<open>np.floor(255 * np.arange(0, n) / n)\<close>.\<close>

definition ramp :: "nat \<Rightarrow> real list" where
  "ramp n = map (\<lambda>x. of_int \<lfloor>255 * x / real n\<rfloor>) (np_arange 0 n)"

definition make_colorwheel :: "real list list" where
  "make_colorwheel =
    (let RY = 15; YG = 6; GC = 4; CB = 11; BM = 13; MR = 6;
         ncols = RY + YG + GC + CB + BM + MR;
         colorwheel = np_zeros2 ncols 3;
         col = 0;
         colorwheel = set_col_slice 0 RY 0 (replicate RY 255) colorwheel;
         colorwheel = set_col_slice 0 RY 1 (ramp RY) colorwheel;
         col = col + RY;
         colorwheel = set_col_slice col (col + YG) 0 (map (\<lambda>x. 255 - x) (ramp YG)) colorwheel;
         colorwheel = set_col_slice col (col + YG) 1 (replicate YG 255) colorwheel;
         col = col + YG;
         colorwheel = set_col_slice col (col + GC) 1 (replicate GC 255) colorwheel;
         colorwheel = set_col_slice col (col + GC) 2 (ramp GC) colorwheel;
         col = col + GC;
         colorwheel = set_col_slice col (col + CB) 1 (map (\<lambda>x. 255 - x) (ramp CB)) colorwheel;
         colorwheel = set_col_slice col (col + CB) 2 (replicate CB 255) colorwheel;
         col = col + CB;
         colorwheel = set_col_slice col (col + BM) 2 (replicate BM 255) colorwheel;
         colorwheel = set_col_slice col (col + BM) 0 (ramp BM) colorwheel;
         col = col + BM;
         colorwheel = set_col_slice col (col + MR) 2 (map (\<lambda>x. 255 - x) (ramp MR)) colorwheel;
         colorwheel = set_col_slice col (col + MR) 0 (replicate MR 255) colorwheel
     in colorwheel)"

text \<open>The six hue segments of the wheel, each a ramp of one channel.\<close>

definition segments :: "real list list list" where
  "segments =
     [map (\<lambda>g. [255, g, 0]) (ramp 15),
      map (\<lambda>r. [255 - r, 255, 0]) (ramp 6),
      map (\<lambda>b. [0, 255, b]) (ramp 4),
      map (\<lambda>g. [0, 255 - g, 255]) (ramp 11),
      map (\<lambda>r. [r, 0, 255]) (ramp 13),
      map (\<lambda>b. [255, 0, 255 - b]) (ramp 6)]"

section \<open>flow_compute_color\<close>

text \<open>
  The arrays that \<^verbatim>\<open>flow_compute_color(u, v, convert_to_bgr)\<close> computes before its loop,
  under the names the source gives them (lines 105 to 114). The indices \<open>k0\<close> and \<open>k1\<close> are
  integers: \<^verbatim>\<open>astype(np.int32)\<close> is exact on the values of \<open>floor(fk)\<close>, which are shown below
  to lie in \<open>[0, 54]\<close>.
\<close>

definition ncols :: int where
  "ncols = int (length make_colorwheel)"

definition rad_arr :: "np_float list list \<Rightarrow> np_float list list \<Rightarrow> real list list" where
  "rad_arr u v = ew1 sqrt (ew2 (+) (ew1 (\<lambda>x. (fval x)\<^sup>2) u) (ew1 (\<lambda>x. (fval x)\<^sup>2) v))"

definition a_arr :: "np_float list list \<Rightarrow> np_float list list \<Rightarrow> real list list" where
  "a_arr u v = ew1 (\<lambda>x. x / pi) (ew2 arctan2 (ew1 fneg v) (ew1 fneg u))"

definition fk_arr :: "np_float list list \<Rightarrow> np_float list list \<Rightarrow> real list list" where
  "fk_arr u v = ew1 (\<lambda>a. (a + 1) / 2 * (of_int ncols - 1)) (a_arr u v)"

definition k0_arr :: "np_float list list \<Rightarrow> np_float list list \<Rightarrow> int list list" where
  "k0_arr u v = ew1 floor (fk_arr u v)"

definition k1_arr :: "np_float list list \<Rightarrow> np_float list list \<Rightarrow> int list list" where
  "k1_arr u v =
     (let k1 = ew1 (\<lambda>k. k + 1) (k0_arr u v);
          k1 = ew1 (\<lambda>k. if k = ncols then 1 else k) k1
      in k1)"

definition f_arr :: "np_float list list \<Rightarrow> np_float list list \<Rightarrow> real list list" where
  "f_arr u v = ew2 (\<lambda>x k. x - of_int k) (fk_arr u v) (k0_arr u v)"

text \<open>
  The body of the loop over the channel \<open>i\<close> (lines 117 to 124): the interpolated base
  colour \<open>col\<close>, and \<open>col\<close> after the two masked assignments.
\<close>

definition base_col :: "nat \<Rightarrow> np_float list list \<Rightarrow> np_float list list \<Rightarrow> real list list" where
  "base_col i u v =
     (let tmp = map (\<lambda>row. row ! i) make_colorwheel;
          col0 = ew1 (\<lambda>k. np_index tmp k / 255) (k0_arr u v);
          col1 = ew1 (\<lambda>k. np_index tmp k / 255) (k1_arr u v)
      in ew2 (+) (ew2 (*) (ew1 (\<lambda>x. 1 - x) (f_arr u v)) col0) (ew2 (*) (f_arr u v) col1))"

definition shaded_col :: "nat \<Rightarrow> np_float list list \<Rightarrow> np_float list list \<Rightarrow> real list list" where
  "shaded_col i u v =
     (let rad = rad_arr u v;
          col = base_col i u v;
          idx = ew1 (\<lambda>r. r \<le> 1) rad;
          col = np_mask_set idx col
                  (map2 (\<lambda>r c. 1 - r * (1 - c)) (np_mask_get idx rad) (np_mask_get idx col));
          nidx = ew1 Not idx;
          col = np_mask_set nidx col (map (\<lambda>c. c * 0.75) (np_mask_get nidx col))
      in col)"

text \<open>\<^verbatim>\<open>flow_image[:, :, ch_idx] = np.floor(255 * col)\<close>, into a \<^verbatim>\<open>uint8\<close> array.\<close>

definition set_channel :: "nat \<Rightarrow> real list list \<Rightarrow> u8 list list list \<Rightarrow> u8 list list list" where
  "set_channel ch vals flow_image = ew2 (\<lambda>px x. px[ch := astype_uint8 x]) flow_image vals"

definition channel_step ::
  "np_float list list \<Rightarrow> np_float list list \<Rightarrow> bool \<Rightarrow> nat \<Rightarrow> u8 list list list \<Rightarrow> u8 list list list" where
  "channel_step u v convert_to_bgr i flow_image =
     (let col = shaded_col i u v;
          ch_idx = (if convert_to_bgr then 2 - i else i)
      in set_channel ch_idx (ew1 (\<lambda>c. of_int \<lfloor>255 * c\<rfloor>) col) flow_image)"

text \<open>
  The function. \<open>u\<close> and \<open>v\<close> have the same shape at its only call site; broadcasting of
  unequal shapes is not modelled, and unequal shapes are the outcome \<open>ValueError\<close>. A
  palette index out of range is the outcome \<open>IndexError\<close>.
\<close>

definition flow_compute_color ::
  "np_float list list \<Rightarrow> np_float list list \<Rightarrow> bool \<Rightarrow> error + u8 list list list" where
  "flow_compute_color u v convert_to_bgr =
     (if \<not> same_shape u v then Inl ValueError
      else
        let flow_image = ew1 (\<lambda>_. replicate 3 (0 :: u8)) u;
            colorwheel = make_colorwheel
        in if \<not> (list_all (list_all (index_ok (length colorwheel))) (k0_arr u v)
                 \<and> list_all (list_all (index_ok (length colorwheel))) (k1_arr u v))
           then Inl IndexError
           else Inr (fold (channel_step u v convert_to_bgr)
                       [0..<length (colorwheel ! 0)] flow_image))"

subsection \<open>The computation at one pixel\<close>

text \<open>
  The array expressions of \<^verbatim>\<open>flow_compute_color\<close> read at one pixel \<open>(x, y)\<close> of
  \<open>(u, v)\<close>. They are used to reason about the arrays above, which are shown equal to
  these functions mapped over the pixels.
\<close>

definition px_rad :: "np_float \<Rightarrow> np_float \<Rightarrow> real" where
  "px_rad x y = sqrt ((fval x)\<^sup>2 + (fval y)\<^sup>2)"

definition px_a :: "np_float \<Rightarrow> np_float \<Rightarrow> real" where
  "px_a x y = arctan2 (fneg y) (fneg x) / pi"

definition px_fk :: "np_float \<Rightarrow> np_float \<Rightarrow> real" where
  "px_fk x y = (px_a x y + 1) / 2 * (of_int ncols - 1)"

definition px_k0 :: "np_float \<Rightarrow> np_float \<Rightarrow> int" where
  "px_k0 x y = \<lfloor>px_fk x y\<rfloor>"

definition px_k1 :: "np_float \<Rightarrow> np_float \<Rightarrow> int" where
  "px_k1 x y = (if px_k0 x y + 1 = ncols then 1 else px_k0 x y + 1)"

definition px_f :: "np_float \<Rightarrow> np_float \<Rightarrow> real" where
  "px_f x y = px_fk x y - of_int (px_k0 x y)"

definition px_base :: "nat \<Rightarrow> np_float \<Rightarrow> np_float \<Rightarrow> real" where
  "px_base i x y =
     (1 - px_f x y) * (np_index (map (\<lambda>row. row ! i) make_colorwheel) (px_k0 x y) / 255)
     + px_f x y * (np_index (map (\<lambda>row. row ! i) make_colorwheel) (px_k1 x y) / 255)"

definition px_shaded :: "nat \<Rightarrow> np_float \<Rightarrow> np_float \<Rightarrow> real" where
  "px_shaded i x y =
     (if px_rad x y \<le> 1 then 1 - px_rad x y * (1 - px_base i x y) else px_base i x y * 0.75)"


definition px_color :: "bool \<Rightarrow> np_float \<Rightarrow> np_float \<Rightarrow> u8 list" where
  "px_color convert_to_bgr x y =
     fold (\<lambda>i px. px[(if convert_to_bgr then 2 - i else i) :=
                       astype_uint8 (of_int \<lfloor>255 * px_shaded i x y\<rfloor>)])
          [0..<3] (replicate 3 0)"

definition pixels :: "'a list list \<Rightarrow> 'b list list \<Rightarrow> ('a \<times> 'b) list list" where
  "pixels u v = ew2 Pair u v"

section \<open>flow_to_color and flow2img\<close>

text \<open>
  \<^verbatim>\<open>flow_uv.permute(0, 2, 3, 1).view(N, H * W, C)\<close> as a numpy array: element \<open>[n, p, c]\<close> is
  element \<open>[n, c, p div W, p mod W]\<close> of \<open>flow_uv\<close> (lines 65 to 67).
\<close>

definition flow_uv_numpy_of :: "np_float tensor \<Rightarrow> np_float list list list" where
  "flow_uv_numpy_of flow_uv =
     (let N = shape flow_uv ! 0; C = shape flow_uv ! 1;
          H = shape flow_uv ! 2; W = shape flow_uv ! 3
      in map (\<lambda>n. map (\<lambda>p. map (\<lambda>c. at4 flow_uv n c (p div W) (p mod W)) [0..<C])
                        [0..<H * W]) [0..<N])"

text \<open>
  Lines 72 to 83: the channels, the radius (the expression of line 75 is that of line 107,
  \<open>rad_arr\<close>), its maximum (\<^verbatim>\<open>np.max\<close> of an empty array raises \<^verbatim>\<open>ValueError\<close>), the
  optional cap, and the division by \<open>rad_max + epsilon\<close>. A zero divisor gives infinities or
  NaN in the source, which the reals do not have: it is the outcome \<open>NonFinite\<close>.
\<close>

definition epsilon :: real where
  "epsilon = 1 / 100000"

definition normalize_uv ::
  "np_float list list list \<Rightarrow> real option \<Rightarrow>
     error + (np_float list list \<times> np_float list list)" where
  "normalize_uv flow_uv_numpy max_mag =
     (let u = ew1 (\<lambda>px. px ! 0) flow_uv_numpy;
          v = ew1 (\<lambda>px. px ! 1) flow_uv_numpy;
          rad = rad_arr u v
      in if concat rad = [] then Inl ValueError
         else
           let rad_max = Max (set (concat rad));
               rad_max = (case max_mag of None \<Rightarrow> rad_max | Some m \<Rightarrow> m)
           in if rad_max + epsilon = 0 then Inl NonFinite
              else Inr (ew1 (\<lambda>x. fdiv x (rad_max + epsilon)) u,
                        ew1 (\<lambda>x. fdiv x (rad_max + epsilon)) v))"

text \<open>
  The maximum radius of a field (line 76, before the cap), and the radius and the angle that
  \<^verbatim>\<open>flow_compute_color\<close> computes from the normalized channels of a field (lines 107 and
  108), as functions of the field and the cap.
\<close>

definition field_rad_max :: "np_float tensor \<Rightarrow> real" where
  "field_rad_max flow_uv =
     (let flow_uv_numpy = flow_uv_numpy_of flow_uv;
          u = ew1 (\<lambda>px. px ! 0) flow_uv_numpy;
          v = ew1 (\<lambda>px. px ! 1) flow_uv_numpy
      in Max (set (concat (rad_arr u v))))"



text \<open>
  Lines 86 to 88: the colour array of shape \<open>(N, H * W, 3)\<close> viewed as \<open>(N, H, W, 3)\<close> and
  permuted to \<open>(N, 3, H, W)\<close>.
\<close>

definition color_tensor :: "nat \<Rightarrow> nat \<Rightarrow> nat \<Rightarrow> u8 list list list \<Rightarrow> u8 tensor" where
  "color_tensor N H W color =
     \<lparr>shape = [N, 3, H, W],
      data = concat (map (\<lambda>n. concat (map (\<lambda>c. concat (map (\<lambda>h.
               map (\<lambda>w. color ! n ! (h * W + w) ! c) [0..<W]) [0..<H])) [0..<3])) [0..<N])\<rparr>"

text \<open>
  The function. Line 70 binds the clipped tensor to \<open>flow_uv\<close>, a name that is not read
  again: \<open>u\<close> and \<open>v\<close> come from \<open>flow_uv_numpy\<close>, taken at line 66.
\<close>

definition flow_to_color ::
  "np_float tensor \<Rightarrow> real option \<Rightarrow> real option \<Rightarrow> bool \<Rightarrow> error + u8 tensor" where
  "flow_to_color flow_uv max_mag clip_flow convert_to_bgr =
     (if length (shape flow_uv) \<noteq> 4 then Inl AssertionError
      else if shape flow_uv ! 1 \<noteq> 2 then Inl AssertionError
      else
        let N = shape flow_uv ! 0; H = shape flow_uv ! 2; W = shape flow_uv ! 3;
            flow_uv_numpy = flow_uv_numpy_of flow_uv;
            flow_uv = (case clip_flow of None \<Rightarrow> flow_uv
                       | Some c \<Rightarrow> flow_uv\<lparr>data := map (clip_float 0 c) (data flow_uv)\<rparr>)
        in case normalize_uv flow_uv_numpy max_mag of
             Inl e \<Rightarrow> Inl e
           | Inr (u, v) \<Rightarrow>
               (case flow_compute_color u v convert_to_bgr of
                  Inl e \<Rightarrow> Inl e
                | Inr color \<Rightarrow> Inr (color_tensor N H W color)))"

text \<open>
  Lines 47 and 48 of \<^verbatim>\<open>flow2img\<close>: clip every value into \<open>[0, 255]\<close>, then convert to
  \<^verbatim>\<open>uint8\<close>; and the conversion of a \<^verbatim>\<open>uint8\<close> image to floats (\<^verbatim>\<open>.float()\<close>).
\<close>

definition quantize :: "real list list list \<Rightarrow> u8 list list list" where
  "quantize flow_uv =
     (let flow_numpy = map (ew1 (np_clip 0 255)) flow_uv
      in map (ew1 astype_uint8) flow_numpy)"

definition to_float :: "u8 list list list \<Rightarrow> real list list list" where
  "to_float img = map (ew1 (\<lambda>w. real (unat w))) img"

text \<open>
  \<^verbatim>\<open>flow2img\<close>: a leading axis is added, the field is encoded, and image 0 of the result is
  permuted to \<open>(H, W, 3)\<close>, converted to floats and quantized.
\<close>

definition flow2img :: "np_float tensor \<Rightarrow> error + u8 list list list" where
  "flow2img flow_uv =
     (let flow_uv = flow_uv\<lparr>shape := 1 # shape flow_uv\<rparr>
      in case flow_to_color flow_uv None None False of
           Inl e \<Rightarrow> Inl e
         | Inr color \<Rightarrow>
             let C = shape color ! 1; H = shape color ! 2; W = shape color ! 3;
                 permuted = map (\<lambda>h. map (\<lambda>w. map (\<lambda>c. at4 color 0 c h w) [0..<C]) [0..<W]) [0..<H]
             in Inr (quantize (to_float permuted)))"

section \<open>The palette\<close>

lemma ramp_eval:
  "ramp 15 = [0, 17, 34, 51, 68, 85, 102, 119, 136, 153, 170, 187, 204, 221, 238]"
  "ramp 6 = [0, 42, 85, 127, 170, 212]"
  "ramp 4 = [0, 63, 127, 191]"
  "ramp 11 = [0, 23, 46, 69, 92, 115, 139, 162, 185, 208, 231]"
  "ramp 13 = [0, 19, 39, 58, 78, 98, 117, 137, 156, 176, 196, 215, 235]"
  by (simp_all add: ramp_def np_arange_def upt_rec)

lemma make_colorwheel_eval:
  "make_colorwheel =
   [[255, 0, 0], [255, 17, 0], [255, 34, 0], [255, 51, 0], [255, 68, 0],
    [255, 85, 0], [255, 102, 0], [255, 119, 0], [255, 136, 0], [255, 153, 0],
    [255, 170, 0], [255, 187, 0], [255, 204, 0], [255, 221, 0], [255, 238, 0],
    [255, 255, 0], [213, 255, 0], [170, 255, 0], [128, 255, 0], [85, 255, 0],
    [43, 255, 0], [0, 255, 0], [0, 255, 63], [0, 255, 127], [0, 255, 191],
    [0, 255, 255], [0, 232, 255], [0, 209, 255], [0, 186, 255], [0, 163, 255],
    [0, 140, 255], [0, 116, 255], [0, 93, 255], [0, 70, 255], [0, 47, 255],
    [0, 24, 255], [0, 0, 255], [19, 0, 255], [39, 0, 255], [58, 0, 255],
    [78, 0, 255], [98, 0, 255], [117, 0, 255], [137, 0, 255], [156, 0, 255],
    [176, 0, 255], [196, 0, 255], [215, 0, 255], [235, 0, 255], [255, 0, 255],
    [255, 0, 213], [255, 0, 170], [255, 0, 128], [255, 0, 85], [255, 0, 43]]"
  unfolding make_colorwheel_def Let_def ramp_eval
  by (simp add: set_col_slice_def np_zeros2_def upt_rec numeral_eq_Suc)

lemma segments_eval: "concat segments = make_colorwheel"
  unfolding make_colorwheel_eval segments_def ramp_eval by simp

lemma segments_lengths: "map length segments = [15, 6, 4, 11, 13, 6]"
  unfolding segments_def ramp_eval by simp

lemma length_make_colorwheel: "length make_colorwheel = 55"
  unfolding make_colorwheel_eval by simp

lemma colorwheel_rows:
  "\<forall>row \<in> set make_colorwheel. length row = 3 \<and> (\<forall>x \<in> set row. x \<in> \<int> \<and> 0 \<le> x \<and> x \<le> 255)"
  unfolding make_colorwheel_eval by simp

text \<open>
  Claim C2. \<^verbatim>\<open>make_colorwheel\<close> returns a palette of exactly 55 colour triples, which is the
  concatenation of six contiguous segments of lengths 15, 6, 4, 11, 13 and 6 (summing to
  55), and every channel value of every entry is an integer in \<open>[0, 255]\<close>.
\<close>

theorem make_colorwheel_palette:
  "length make_colorwheel = 55 \<and>
   make_colorwheel = concat segments \<and>
   map length segments = [15, 6, 4, 11, 13, 6] \<and>
   sum_list (map length segments) = 55 \<and>
   (\<forall>row \<in> set make_colorwheel.
      length row = 3 \<and> (\<forall>x \<in> set row. x \<in> \<int> \<and> 0 \<le> x \<and> x \<le> 255))"
  using length_make_colorwheel segments_eval segments_lengths colorwheel_rows by simp

text \<open>The palette property at entry 16, the second entry of the second segment.\<close>

theorem make_colorwheel_palette_witness:
  "make_colorwheel ! 16 = [213, 255, 0] \<and> make_colorwheel ! 16 \<in> set make_colorwheel \<and>
   length (make_colorwheel ! 16) = 3 \<and> (213::real) \<in> \<int> \<and> (0::real) \<le> 213 \<and> (213::real) \<le> 255"
proof -
  have e: "make_colorwheel ! 16 = [213, 255, 0]"
    unfolding make_colorwheel_eval by simp
  have m: "make_colorwheel ! 16 \<in> set make_colorwheel"
    by (rule nth_mem) (simp add: length_make_colorwheel)
  from make_colorwheel_palette m
  have "length (make_colorwheel ! 16) = 3 \<and>
        (\<forall>x \<in> set (make_colorwheel ! 16). x \<in> \<int> \<and> 0 \<le> x \<and> x \<le> 255)"
    by blast
  with e m show ?thesis by simp
qed


section \<open>Arrays as maps over the pixels\<close>

lemma ew1_ew1: "ew1 f (ew1 g x) = ew1 (\<lambda>a. f (g a)) x"
  by (simp add: ew1_def comp_def)

lemma map2_same: "map2 h (map f ps) (map g ps) = map (\<lambda>p. h (f p) (g p)) ps"
  by (induction ps) simp_all

lemma ew2_ew1: "ew2 h (ew1 f P) (ew1 g P) = ew1 (\<lambda>p. h (f p) (g p)) P"
  by (induction P) (simp_all add: ew1_def ew2_def map2_same)

lemma pixels_fst: "same_shape u v \<Longrightarrow> ew1 fst (pixels u v) = u"
proof (induction u arbitrary: v)
  case Nil
  then show ?case by (simp add: ew1_def ew2_def pixels_def)
next
  case (Cons r u)
  then obtain s v' where v: "v = s # v'" by (cases v) (auto simp: same_shape_def)
  with Cons.prems have "length r = length s" "same_shape u v'"
    by (simp_all add: same_shape_def)
  with Cons.IH [of v'] v show ?case
    by (simp add: ew1_def ew2_def pixels_def)
qed

lemma pixels_snd: "same_shape u v \<Longrightarrow> ew1 snd (pixels u v) = v"
proof (induction u arbitrary: v)
  case Nil
  then show ?case by (simp add: ew1_def ew2_def pixels_def same_shape_def)
next
  case (Cons r u)
  then obtain s v' where v: "v = s # v'" by (cases v) (auto simp: same_shape_def)
  with Cons.prems have "length r = length s" "same_shape u v'"
    by (simp_all add: same_shape_def)
  with Cons.IH [of v'] v show ?case
    by (simp add: ew1_def ew2_def pixels_def)
qed

lemma ew1_shape: "map length (ew1 f x) = map length x"
  by (simp add: ew1_def)

lemma pixels_shape: "same_shape u v \<Longrightarrow> map length (pixels u v) = map length u"
  using pixels_fst [of u v] ew1_shape [of fst "pixels u v"] by simp

lemma concat_ew1: "concat (ew1 f x) = map f (concat x)"
  by (simp add: ew1_def map_concat)

lemma mask_update2:
  "mask_set (map b ps) (map c ps) (map2 g (mask_get (map b ps) (map r ps)) (mask_get (map b ps) (map c ps)))
     = map (\<lambda>p. if b p then g (r p) (c p) else c p) ps"
  by (induction ps) simp_all

lemma mask_update1:
  "mask_set (map b ps) (map c ps) (map h (mask_get (map b ps) (map c ps)))
     = map (\<lambda>p. if b p then h (c p) else c p) ps"
  by (induction ps) simp_all

lemma unflatten_concat: "map length x = map length P \<Longrightarrow> unflatten x (map f (concat P)) = ew1 f P"
proof (induction P arbitrary: x)
  case Nil
  then show ?case by (simp add: ew1_def)
next
  case (Cons r P)
  then obtain s x' where x: "x = s # x'" by (cases x) auto
  with Cons.prems have "length s = length r" "map length x' = map length P" by simp_all
  with Cons.IH [of x'] x show ?case by (simp add: ew1_def)
qed

lemma np_mask_update2:
  "np_mask_set (ew1 b P) (ew1 c P)
     (map2 g (np_mask_get (ew1 b P) (ew1 r P)) (np_mask_get (ew1 b P) (ew1 c P)))
   = ew1 (\<lambda>p. if b p then g (r p) (c p) else c p) P"
  by (simp add: np_mask_set_def np_mask_get_def concat_ew1 mask_update2 unflatten_concat ew1_shape)

lemma np_mask_update1:
  "np_mask_set (ew1 b P) (ew1 c P) (map h (np_mask_get (ew1 b P) (ew1 c P)))
   = ew1 (\<lambda>p. if b p then h (c p) else c p) P"
  by (simp add: np_mask_set_def np_mask_get_def concat_ew1 mask_update1 unflatten_concat ew1_shape)

lemma rad_arr_px: "same_shape u v \<Longrightarrow> rad_arr u v = ew1 (\<lambda>p. px_rad (fst p) (snd p)) (pixels u v)"
proof -
  assume s: "same_shape u v"
  have "rad_arr (ew1 fst (pixels u v)) (ew1 snd (pixels u v))
        = ew1 (\<lambda>p. px_rad (fst p) (snd p)) (pixels u v)"
    by (simp add: rad_arr_def ew1_ew1 ew2_ew1 px_rad_def)
  with s show ?thesis by (simp add: pixels_fst pixels_snd)
qed

lemma a_arr_px: "same_shape u v \<Longrightarrow> a_arr u v = ew1 (\<lambda>p. px_a (fst p) (snd p)) (pixels u v)"
proof -
  assume s: "same_shape u v"
  have "a_arr (ew1 fst (pixels u v)) (ew1 snd (pixels u v))
        = ew1 (\<lambda>p. px_a (fst p) (snd p)) (pixels u v)"
    by (simp add: a_arr_def ew1_ew1 ew2_ew1 px_a_def)
  with s show ?thesis by (simp add: pixels_fst pixels_snd)
qed

lemma fk_arr_px: "same_shape u v \<Longrightarrow> fk_arr u v = ew1 (\<lambda>p. px_fk (fst p) (snd p)) (pixels u v)"
  by (simp add: fk_arr_def a_arr_px ew1_ew1 px_fk_def)

lemma k0_arr_px: "same_shape u v \<Longrightarrow> k0_arr u v = ew1 (\<lambda>p. px_k0 (fst p) (snd p)) (pixels u v)"
  by (simp add: k0_arr_def fk_arr_px ew1_ew1 px_k0_def)

lemma k1_arr_px: "same_shape u v \<Longrightarrow> k1_arr u v = ew1 (\<lambda>p. px_k1 (fst p) (snd p)) (pixels u v)"
  by (simp add: k1_arr_def k0_arr_px ew1_ew1 px_k1_def Let_def)

lemma f_arr_px: "same_shape u v \<Longrightarrow> f_arr u v = ew1 (\<lambda>p. px_f (fst p) (snd p)) (pixels u v)"
  by (simp add: f_arr_def k0_arr_px fk_arr_px ew2_ew1 px_f_def)

lemma base_col_px:
  "same_shape u v \<Longrightarrow> base_col i u v = ew1 (\<lambda>p. px_base i (fst p) (snd p)) (pixels u v)"
  by (simp add: base_col_def k0_arr_px k1_arr_px f_arr_px ew1_ew1 ew2_ew1 px_base_def Let_def)

lemma shaded_col_px:
  "same_shape u v \<Longrightarrow> shaded_col i u v = ew1 (\<lambda>p. px_shaded i (fst p) (snd p)) (pixels u v)"
  by (simp add: shaded_col_def base_col_px rad_arr_px ew1_ew1 np_mask_update2 np_mask_update1
      px_shaded_def Let_def if_distrib cong: if_cong)

section \<open>Bounds at one pixel\<close>

lemma ncols_eq: "ncols = 55"
  by (simp add: ncols_def length_make_colorwheel)

lemma arctan2_bounds: "- pi \<le> arctan2 y x \<and> arctan2 y x \<le> pi"
proof -
  let ?q = "fval y / fval x"
  have a: "- (pi / 2) < arctan ?q" "arctan ?q < pi / 2"
    by (rule arctan_lbound, rule arctan_ubound)
  have p: "0 < pi" by (rule pi_gt_zero)
  consider "fval y = 0" | "fval y \<noteq> 0" "0 < fval x" | "0 < fval y" "fval x < 0"
    | "fval y < 0" "fval x < 0" | "fval y \<noteq> 0" "fval x = 0"
    by linarith
  then show ?thesis
  proof cases
    case 1
    then have "arctan2 y x = - pi \<or> arctan2 y x = pi \<or> arctan2 y x = 0"
      by (simp add: arctan2_def)
    with p show ?thesis by linarith
  next
    case 2
    then have "arctan2 y x = arctan ?q" by (simp add: arctan2_def)
    with a p show ?thesis by linarith
  next
    case 3
    then have "?q \<le> 0" by (simp add: divide_nonneg_neg)
    then have "arctan ?q \<le> 0" using arctan_le_zero_iff by blast
    moreover from 3 have "arctan2 y x = arctan ?q + pi" by (simp add: arctan2_def)
    ultimately show ?thesis using a p by linarith
  next
    case 4
    then have "0 < ?q" by (simp add: divide_neg_neg)
    then have "0 < arctan ?q" using zero_less_arctan_iff by blast
    moreover from 4 have "arctan2 y x = arctan ?q - pi" by (simp add: arctan2_def)
    ultimately show ?thesis using a p by linarith
  next
    case 5
    then have "arctan2 y x = pi / 2 \<or> arctan2 y x = - pi / 2"
      by (simp add: arctan2_def)
    with p show ?thesis by linarith
  qed
qed

lemma px_a_bounds: "- 1 \<le> px_a x y \<and> px_a x y \<le> 1"
proof -
  have p: "0 < pi" by (rule pi_gt_zero)
  from arctan2_bounds [of "fneg y" "fneg x"] p show ?thesis
    by (simp add: px_a_def pos_le_divide_eq pos_divide_le_eq)
qed

lemma px_fk_bounds: "0 \<le> px_fk x y \<and> px_fk x y \<le> 54"
  using px_a_bounds [of x y] by (simp add: px_fk_def ncols_eq)

lemma px_k0_bounds: "0 \<le> px_k0 x y \<and> px_k0 x y \<le> 54"
proof -
  from px_fk_bounds [of x y] have "0 \<le> \<lfloor>px_fk x y\<rfloor>" by simp
  moreover from px_fk_bounds [of x y] have "\<lfloor>px_fk x y\<rfloor> \<le> 54"
    by (simp add: floor_le_iff)
  ultimately show ?thesis by (simp add: px_k0_def)
qed

lemma px_k1_bounds: "1 \<le> px_k1 x y \<and> px_k1 x y \<le> 54"
  using px_k0_bounds [of x y] by (simp add: px_k1_def ncols_eq)

lemma px_f_bounds: "0 \<le> px_f x y \<and> px_f x y < 1"
  by (simp add: px_f_def px_k0_def) linarith

lemma palette_channel_bounds:
  assumes "i < 3" "0 \<le> k" "k < 55"
  shows "0 \<le> np_index (map (\<lambda>row. row ! i) make_colorwheel) k
         \<and> np_index (map (\<lambda>row. row ! i) make_colorwheel) k \<le> 255"
proof -
  from assms have n: "nat k < length make_colorwheel"
    by (simp add: length_make_colorwheel)
  then have m: "make_colorwheel ! nat k \<in> set make_colorwheel" by (rule nth_mem)
  with colorwheel_rows have l: "length (make_colorwheel ! nat k) = 3"
    and b: "\<forall>x \<in> set (make_colorwheel ! nat k). 0 \<le> x \<and> x \<le> 255" by blast+
  from l assms have "make_colorwheel ! nat k ! i \<in> set (make_colorwheel ! nat k)" by simp
  with b have "0 \<le> make_colorwheel ! nat k ! i \<and> make_colorwheel ! nat k ! i \<le> 255" by blast
  with n assms show ?thesis by (simp add: np_index_def)
qed

lemma convex_unit:
  fixes f a b :: real
  assumes "0 \<le> f" "f \<le> 1" "0 \<le> a" "a \<le> 1" "0 \<le> b" "b \<le> 1"
  shows "0 \<le> (1 - f) * a + f * b \<and> (1 - f) * a + f * b \<le> 1"
proof
  from assms show "0 \<le> (1 - f) * a + f * b" by simp
  from assms have "(1 - f) * a \<le> (1 - f) * 1" by (intro mult_left_mono) simp_all
  moreover from assms have "f * b \<le> f * 1" by (intro mult_left_mono) simp_all
  ultimately show "(1 - f) * a + f * b \<le> 1" by simp
qed

lemma px_base_bounds: "i < 3 \<Longrightarrow> 0 \<le> px_base i x y \<and> px_base i x y \<le> 1"
proof -
  assume i: "i < 3"
  let ?tmp = "map (\<lambda>row. row ! i) make_colorwheel"
  from px_k0_bounds [of x y] i have c0: "0 \<le> np_index ?tmp (px_k0 x y) / 255"
    "np_index ?tmp (px_k0 x y) / 255 \<le> 1"
    using palette_channel_bounds [of i "px_k0 x y"] by simp_all
  from px_k1_bounds [of x y] i have c1: "0 \<le> np_index ?tmp (px_k1 x y) / 255"
    "np_index ?tmp (px_k1 x y) / 255 \<le> 1"
    using palette_channel_bounds [of i "px_k1 x y"] by simp_all
  from px_f_bounds [of x y] have f: "0 \<le> px_f x y" "px_f x y \<le> 1" by simp_all
  from convex_unit [OF f c0 c1] show ?thesis by (simp add: px_base_def)
qed

lemma px_rad_nonneg: "0 \<le> px_rad x y"
  by (simp add: px_rad_def)

lemma px_shaded_bounds: "i < 3 \<Longrightarrow> 0 \<le> px_shaded i x y \<and> px_shaded i x y \<le> 1"
proof -
  assume i: "i < 3"
  from px_base_bounds [OF i, of x y] have b: "0 \<le> px_base i x y" "px_base i x y \<le> 1"
    by simp_all
  show ?thesis
  proof (cases "px_rad x y \<le> 1")
    case True
    have "px_rad x y * (1 - px_base i x y) \<le> 1 * 1"
      using True b px_rad_nonneg [of x y] by (intro mult_mono) simp_all
    moreover have "0 \<le> px_rad x y * (1 - px_base i x y)"
      using b px_rad_nonneg [of x y] by simp
    ultimately show ?thesis using True by (simp add: px_shaded_def)
  next
    case False
    with b show ?thesis by (simp add: px_shaded_def)
  qed
qed

lemma px_level_bounds:
  "i < 3 \<Longrightarrow> 0 \<le> \<lfloor>255 * px_shaded i x y\<rfloor> \<and> \<lfloor>255 * px_shaded i x y\<rfloor> \<le> 255"
proof -
  assume i: "i < 3"
  from px_shaded_bounds [OF i, of x y]
  have "0 \<le> 255 * px_shaded i x y" "255 * px_shaded i x y \<le> 255" by simp_all
  then show ?thesis by (simp add: floor_le_iff)
qed


section \<open>The colour image as a map over the pixels\<close>

lemma list_all_ew1: "(\<And>p. Q (f p)) \<Longrightarrow> list_all (list_all Q) (ew1 f P)"
  by (simp add: ew1_def list_all_iff)

lemma indices_ok:
  assumes "same_shape u v"
  shows "list_all (list_all (index_ok (length make_colorwheel))) (k0_arr u v)"
    and "list_all (list_all (index_ok (length make_colorwheel))) (k1_arr u v)"
proof -
  have "index_ok 55 (px_k0 x y)" for x y
    using px_k0_bounds [of x y] by (simp add: index_ok_def)
  then show "list_all (list_all (index_ok (length make_colorwheel))) (k0_arr u v)"
    using assms by (simp add: k0_arr_px length_make_colorwheel list_all_ew1)
  have "index_ok 55 (px_k1 x y)" for x y
    using px_k1_bounds [of x y] by (simp add: index_ok_def)
  then show "list_all (list_all (index_ok (length make_colorwheel))) (k1_arr u v)"
    using assms by (simp add: k1_arr_px length_make_colorwheel list_all_ew1)
qed

lemma set_channel_px:
  "set_channel ch (ew1 g P) (ew1 h P) = ew1 (\<lambda>p. (h p)[ch := astype_uint8 (g p)]) P"
  by (simp add: set_channel_def ew2_ew1)

lemma channel_step_px:
  "same_shape u v \<Longrightarrow>
   channel_step u v b i (ew1 h (pixels u v)) =
   ew1 (\<lambda>p. (h p)[(if b then 2 - i else i) :=
               astype_uint8 (of_int \<lfloor>255 * px_shaded i (fst p) (snd p)\<rfloor>)]) (pixels u v)"
  by (simp add: channel_step_def shaded_col_px ew1_ew1 set_channel_px Let_def)

lemma colorwheel_row0: "length (make_colorwheel ! 0) = 3"
  unfolding make_colorwheel_eval by simp

lemma upt_3: "[0..<3] = [0, 1, 2]"
  by (simp add: upt_rec)

lemma flow_image_init: "same_shape u v \<Longrightarrow> ew1 (\<lambda>_. c) u = ew1 (\<lambda>p. c) (pixels u v)"
proof -
  assume s: "same_shape u v"
  have "ew1 (\<lambda>_. c) (ew1 fst (pixels u v)) = ew1 (\<lambda>p. c) (pixels u v)"
    by (simp add: ew1_ew1)
  with s show ?thesis by (simp add: pixels_fst)
qed

lemma flow_compute_color_px:
  assumes s: "same_shape u v"
  shows "flow_compute_color u v b = Inr (ew1 (\<lambda>p. px_color b (fst p) (snd p)) (pixels u v))"
proof -
  have "fold (channel_step u v b) [0, 1, 2] (ew1 (\<lambda>p. replicate 3 0) (pixels u v))
        = ew1 (\<lambda>p. px_color b (fst p) (snd p)) (pixels u v)"
    using s by (simp add: channel_step_px px_color_def upt_3)
  with s indices_ok [OF s] show ?thesis
    by (simp add: flow_compute_color_def colorwheel_row0 upt_3 flow_image_init [OF s] Let_def)
qed

lemma pixels_nth:
  assumes s: "same_shape u v" and n: "n < length u" and p: "p < length (u ! n)"
  shows "ew1 f (pixels u v) ! n ! p = f (u ! n ! p, v ! n ! p)"
proof -
  from pixels_shape [OF s] have "length (pixels u v) = length u"
    by (metis length_map)
  with n have n': "n < length (pixels u v)" by simp
  from pixels_shape [OF s] n n' have "length (pixels u v ! n) = length (u ! n)"
    by (metis nth_map)
  with p have p': "p < length (pixels u v ! n)" by simp
  have "u ! n ! p = ew1 fst (pixels u v) ! n ! p" "v ! n ! p = ew1 snd (pixels u v) ! n ! p"
    using s by (simp_all add: pixels_fst pixels_snd)
  with n' p' have "pixels u v ! n ! p = (u ! n ! p, v ! n ! p)"
    by (simp add: ew1_def prod_eq_iff)
  with n' p' show ?thesis by (simp add: ew1_def)
qed

lemma list_update_3:
  "[a, b, c][0 := x] = [x, b, c]"
  "[a, b, c][Suc 0 := x] = [a, x, c]"
  "[a, b, c][2 := x] = [a, b, x]"
  by (simp_all add: numeral_2_eq_2)

lemma replicate_3: "replicate 3 x = [x, x, x]"
  by (simp add: numeral_3_eq_3)

lemma px_color_expand:
  "px_color b x y =
    (if b then [astype_uint8 (of_int \<lfloor>255 * px_shaded 2 x y\<rfloor>),
                astype_uint8 (of_int \<lfloor>255 * px_shaded 1 x y\<rfloor>),
                astype_uint8 (of_int \<lfloor>255 * px_shaded 0 x y\<rfloor>)]
     else [astype_uint8 (of_int \<lfloor>255 * px_shaded 0 x y\<rfloor>),
           astype_uint8 (of_int \<lfloor>255 * px_shaded 1 x y\<rfloor>),
           astype_uint8 (of_int \<lfloor>255 * px_shaded 2 x y\<rfloor>)])"
  by (simp add: px_color_def upt_3 replicate_3 list_update_3)

section \<open>Properties of flow_compute_color\<close>

text \<open>
  Claim C3. In \<^verbatim>\<open>flow_compute_color\<close>, at every pixel \<open>k0 = floor(fk)\<close> and \<open>k1 = k0 + 1\<close>,
  except that \<open>k1\<close> is 1 where \<open>k0 + 1\<close> equals \<open>ncols = 55\<close>. As \<open>k0\<close> lies in \<open>[0, 54]\<close>,
  \<open>k1\<close> lies in \<open>[1, 54]\<close>: palette entry 0 is never the interpolation target \<open>k1\<close>.
\<close>

theorem k1_wraps_to_one:
  assumes "same_shape u v" "n < length u" "p < length (u ! n)"
  shows "k0_arr u v ! n ! p = \<lfloor>fk_arr u v ! n ! p\<rfloor>
       \<and> k1_arr u v ! n ! p =
           (if k0_arr u v ! n ! p + 1 = 55 then 1 else k0_arr u v ! n ! p + 1)
       \<and> 0 \<le> k0_arr u v ! n ! p \<and> k0_arr u v ! n ! p \<le> 54
       \<and> 1 \<le> k1_arr u v ! n ! p \<and> k1_arr u v ! n ! p \<le> 54
       \<and> k1_arr u v ! n ! p \<noteq> 0"
proof -
  let ?x = "u ! n ! p" and ?y = "v ! n ! p"
  from assms have e: "k0_arr u v ! n ! p = px_k0 ?x ?y" "k1_arr u v ! n ! p = px_k1 ?x ?y"
    "fk_arr u v ! n ! p = px_fk ?x ?y"
    by (simp_all add: k0_arr_px k1_arr_px fk_arr_px pixels_nth)
  have "px_k0 ?x ?y = \<lfloor>px_fk ?x ?y\<rfloor>" by (simp add: px_k0_def)
  moreover have "px_k1 ?x ?y = (if px_k0 ?x ?y + 1 = 55 then 1 else px_k0 ?x ?y + 1)"
    by (simp add: px_k1_def ncols_eq)
  moreover note px_k0_bounds [of ?x ?y] px_k1_bounds [of ?x ?y]
  ultimately show ?thesis unfolding e by linarith
qed

text \<open>
  The pixel \<open>(u, v) = (1.0, -0.0)\<close>: \<open>-v\<close> is the positive zero, \<open>a = 1\<close> and \<open>fk = 54\<close>, so
  \<open>k0 = 54\<close> and \<open>k1\<close> wraps to 1. At the pixel \<open>(1.0, 0.0)\<close>, \<open>-v\<close> is the negative zero,
  \<open>a = -1\<close> and \<open>fk = 0\<close>, so \<open>k0 = 0\<close> and \<open>k1 = 1\<close> without a wrap.
\<close>

theorem k1_wraps_to_one_witness:
  "same_shape [[Fl 1]] [[NegZero]] \<and> same_shape [[Fl 1]] [[Fl 0]]
   \<and> (0::nat) < length [[Fl 1]] \<and> (0::nat) < length ([[Fl 1]] ! 0)
   \<and> k0_arr [[Fl 1]] [[NegZero]] ! 0 ! 0 = 54 \<and> k1_arr [[Fl 1]] [[NegZero]] ! 0 ! 0 = 1
   \<and> k0_arr [[Fl 1]] [[Fl 0]] ! 0 ! 0 = 0 \<and> k1_arr [[Fl 1]] [[Fl 0]] ! 0 ! 0 = 1"
proof -
  have s: "same_shape [[Fl 1]] [[NegZero]]" "same_shape [[Fl 1]] [[Fl 0]]"
    by (simp_all add: same_shape_def)
  have k: "k0_arr [[Fl 1]] [[NegZero]] = [[54]]" "k0_arr [[Fl 1]] [[Fl 0]] = [[0]]"
    by (simp_all add: k0_arr_def fk_arr_def a_arr_def ew1_def ew2_def arctan2_def ncols_eq)
  from k1_wraps_to_one [OF s(1), of 0 0] k1_wraps_to_one [OF s(2), of 0 0] k s show ?thesis
    by simp
qed

text \<open>
  Claim C5. At every pixel and for every channel \<open>i\<close>, the colour after the shading is
  \<open>1 - rad * (1 - col)\<close> where \<open>rad \<le> 1\<close> and \<open>col * 0.75\<close> where \<open>rad > 1\<close>, with \<open>col\<close> the
  interpolated base colour; the image holds \<open>floor(255 * col)\<close> of the shaded colour in the
  channel that belongs to \<open>i\<close>.
\<close>

theorem radial_shading:
  assumes "same_shape u v" "n < length u" "p < length (u ! n)" "i < 3"
  shows "shaded_col i u v ! n ! p =
           (if rad_arr u v ! n ! p \<le> 1
            then 1 - rad_arr u v ! n ! p * (1 - base_col i u v ! n ! p)
            else base_col i u v ! n ! p * 0.75)
       \<and> (\<exists>img. flow_compute_color u v b = Inr img
             \<and> img ! n ! p ! (if b then 2 - i else i) =
                 astype_uint8 (of_int \<lfloor>255 * shaded_col i u v ! n ! p\<rfloor>))"
proof -
  have "px_color b x y ! (if b then 2 - i else i) = astype_uint8 (of_int \<lfloor>255 * px_shaded i x y\<rfloor>)"
    for x y
  proof -
    from \<open>i < 3\<close> consider "i = 0" | "i = 1" | "i = 2" by linarith
    then show ?thesis by cases (simp_all add: px_color_expand)
  qed
  with assms show ?thesis
    by (simp add: shaded_col_px rad_arr_px base_col_px flow_compute_color_px pixels_nth px_shaded_def)
qed

text \<open>The pixel \<open>(2, 0)\<close> has \<open>rad = 2\<close> and takes the branch of the constant 0.75.\<close>

theorem radial_shading_witness:
  "same_shape [[Fl 2]] [[Fl 0]] \<and> (0::nat) < length [[Fl 2]]
   \<and> (0::nat) < length ([[Fl 2]] ! 0) \<and> (0::nat) < 3
   \<and> rad_arr [[Fl 2]] [[Fl 0]] ! 0 ! 0 = 2
   \<and> shaded_col 0 [[Fl 2]] [[Fl 0]] ! 0 ! 0 = base_col 0 [[Fl 2]] [[Fl 0]] ! 0 ! 0 * 0.75"
proof -
  have s: "same_shape [[Fl 2]] [[Fl 0]]" by (simp add: same_shape_def)
  have r: "rad_arr [[Fl 2]] [[Fl 0]] = [[2]]"
    by (simp add: rad_arr_def ew1_def ew2_def)
  from radial_shading [OF s, of 0 0 0 False] r s show ?thesis by simp
qed

text \<open>
  Claim C6. For \<open>u\<close> and \<open>v\<close> of one shape, the image returned with the channel swap enabled
  is the image returned with it disabled, with channels 0 and 2 of every pixel exchanged and
  channel 1 unchanged.
\<close>

theorem channel_swap:
  assumes "same_shape u v"
  shows "\<exists>img. flow_compute_color u v False = Inr img
           \<and> flow_compute_color u v True = Inr (ew1 (\<lambda>px. [px ! 2, px ! 1, px ! 0]) img)
           \<and> list_all (list_all (\<lambda>px. length px = 3)) img"
  using assms
  by (simp add: flow_compute_color_px ew1_ew1 px_color_expand list_all_ew1)


text \<open>The pixel \<open>(1, 0)\<close>.\<close>

theorem channel_swap_witness:
  "same_shape [[Fl 1]] [[Fl 0]] \<and>
   (\<exists>img. flow_compute_color [[Fl 1]] [[Fl 0]] False = Inr img
      \<and> flow_compute_color [[Fl 1]] [[Fl 0]] True = Inr (ew1 (\<lambda>px. [px ! 2, px ! 1, px ! 0]) img))"
proof -
  have s: "same_shape [[Fl 1]] [[Fl 0]]" by (simp add: same_shape_def)
  from channel_swap [OF s] s show ?thesis by blast
qed

lemma astype_uint8_of_int: "astype_uint8 (of_int k) = word_of_int k"
  by (simp add: astype_uint8_def c_trunc_def)

lemma uint_byte: "0 \<le> k \<Longrightarrow> k \<le> 255 \<Longrightarrow> uint (word_of_int k :: u8) = k"
  by (simp add: uint_word_of_int_eq take_bit_int_eq_self)

lemma np_clip_id: "0 \<le> x \<Longrightarrow> x \<le> 255 \<Longrightarrow> np_clip 0 255 x = x"
  by (simp add: np_clip_def)

lemma real_byte_le: "real (unat (w :: u8)) \<le> 255"
proof -
  have "unat w < 256" using unsigned_less [of w] by simp
  then have "unat w \<le> 255" by simp
  then show ?thesis by (simp del: of_nat_unat)
qed

lemma np_clip_byte: "np_clip 0 255 (real (unat (w :: u8))) = real (unat w)"
proof (rule np_clip_id)
  show "0 \<le> real (unat w)" by (rule of_nat_0_le_iff)
  show "real (unat w) \<le> 255" by (rule real_byte_le)
qed

text \<open>
  Claim C10. For real-valued \<open>u\<close> and \<open>v\<close> of one shape, at every pixel and channel the
  interpolated base colour and the shaded colour lie in \<open>[0, 1]\<close>, \<open>floor(255 * col)\<close> lies in
  \<open>[0, 255]\<close>, the function returns an image, and the byte it stores is exactly that integer
  (the conversion to \<^verbatim>\<open>uint8\<close> does not wrap), so that the clip into \<open>[0, 255]\<close> of
  \<^verbatim>\<open>flow2img\<close> leaves the value unchanged.
\<close>

theorem color_in_byte_range:
  assumes "same_shape u v" "n < length u" "p < length (u ! n)" "i < 3"
  shows "0 \<le> base_col i u v ! n ! p \<and> base_col i u v ! n ! p \<le> 1
       \<and> 0 \<le> shaded_col i u v ! n ! p \<and> shaded_col i u v ! n ! p \<le> 1
       \<and> 0 \<le> \<lfloor>255 * shaded_col i u v ! n ! p\<rfloor> \<and> \<lfloor>255 * shaded_col i u v ! n ! p\<rfloor> \<le> 255
       \<and> (\<exists>img. flow_compute_color u v b = Inr img
             \<and> uint (img ! n ! p ! (if b then 2 - i else i)) = \<lfloor>255 * shaded_col i u v ! n ! p\<rfloor>
             \<and> np_clip 0 255 (real (unat (img ! n ! p ! (if b then 2 - i else i))))
                 = real (unat (img ! n ! p ! (if b then 2 - i else i))))"
proof -
  let ?x = "u ! n ! p" and ?y = "v ! n ! p"
  from assms have e: "base_col i u v ! n ! p = px_base i ?x ?y"
    "shaded_col i u v ! n ! p = px_shaded i ?x ?y"
    by (simp_all add: base_col_px shaded_col_px pixels_nth)
  have c: "px_color b ?x ?y ! (if b then 2 - i else i)
           = astype_uint8 (of_int \<lfloor>255 * px_shaded i ?x ?y\<rfloor>)"
  proof -
    from \<open>i < 3\<close> consider "i = 0" | "i = 1" | "i = 2" by linarith
    then show ?thesis by cases (simp_all add: px_color_expand)
  qed
  from assms have f: "flow_compute_color u v b = Inr (ew1 (\<lambda>p. px_color b (fst p) (snd p)) (pixels u v))"
    by (simp add: flow_compute_color_px)
  from assms have g: "ew1 (\<lambda>p. px_color b (fst p) (snd p)) (pixels u v) ! n ! p = px_color b ?x ?y"
    by (simp add: pixels_nth)
  note l = px_level_bounds [OF \<open>i < 3\<close>, of ?x ?y]
  from l have "uint (astype_uint8 (of_int \<lfloor>255 * px_shaded i ?x ?y\<rfloor>)) = \<lfloor>255 * px_shaded i ?x ?y\<rfloor>"
    by (simp add: astype_uint8_of_int uint_byte)
  with px_base_bounds [OF \<open>i < 3\<close>, of ?x ?y] px_shaded_bounds [OF \<open>i < 3\<close>, of ?x ?y] l
  show ?thesis unfolding e f by (simp del: of_nat_unat add: g c np_clip_byte)
qed

theorem color_in_byte_range_witness:
  "same_shape [[Fl 1]] [[Fl 0]] \<and> (0::nat) < length [[Fl 1]]
   \<and> (0::nat) < length ([[Fl 1]] ! 0) \<and> (1::nat) < 3
   \<and> 0 \<le> shaded_col 1 [[Fl 1]] [[Fl 0]] ! 0 ! 0 \<and> shaded_col 1 [[Fl 1]] [[Fl 0]] ! 0 ! 0 \<le> 1
   \<and> (\<exists>img. flow_compute_color [[Fl 1]] [[Fl 0]] False = Inr img
        \<and> uint (img ! 0 ! 0 ! 1) = \<lfloor>255 * shaded_col 1 [[Fl 1]] [[Fl 0]] ! 0 ! 0\<rfloor>)"
proof -
  have s: "same_shape [[Fl 1]] [[Fl 0]]" by (simp add: same_shape_def)
  from color_in_byte_range [OF s, of 0 0 1 False] s show ?thesis by auto
qed

section \<open>Quantization\<close>


lemma quantize_value_int:
  assumes "x \<in> \<int>" "0 \<le> x" "x \<le> 255"
  shows "real (unat (astype_uint8 (np_clip 0 255 x))) = x"
proof -
  from assms obtain k where k: "x = of_int k" by (auto elim: Ints_cases)
  with assms have b: "0 \<le> k" "k \<le> 255" by simp_all
  from assms have "np_clip 0 255 x = x" by (simp add: np_clip_def)
  moreover have "astype_uint8 (of_int k) = word_of_int k" by (rule astype_uint8_of_int)
  moreover from b have "uint (word_of_int k :: u8) = k" by (rule uint_byte)
  then have "int (unat (word_of_int k :: u8)) = k" by simp
  then have "real (unat (word_of_int k :: u8)) = of_int k"
    by (metis of_int_of_nat_eq)
  ultimately show ?thesis using k by simp
qed

lemma quantize_value_byte: "astype_uint8 (np_clip 0 255 (real (unat (w :: u8)))) = w"
proof -
  have "c_trunc (real (unat w)) = int (unat w)" by (simp del: of_nat_unat add: c_trunc_def)
  then have "astype_uint8 (np_clip 0 255 (real (unat w))) = word_of_int (int (unat w))"
    by (simp only: np_clip_byte astype_uint8_def)
  then show ?thesis by simp
qed

lemma quantize_to_float: "quantize (to_float img) = img"
  by (simp del: of_nat_unat add: quantize_def to_float_def ew1_def comp_def quantize_value_byte Let_def)

text \<open>
  Claim C9. The quantization of \<^verbatim>\<open>flow2img\<close> (clip into \<open>[0, 255]\<close>, then convert to
  \<^verbatim>\<open>uint8\<close>) returns an image whose values are integers in \<open>[0, 255]\<close> unchanged, and
  quantizing its result again gives the same result.
\<close>

theorem quantize_idempotent:
  assumes "\<forall>plane \<in> set img. \<forall>row \<in> set plane. \<forall>x \<in> set row. x \<in> \<int> \<and> 0 \<le> x \<and> x \<le> 255"
  shows "to_float (quantize img) = img \<and> quantize (to_float (quantize img)) = quantize img"
proof -
  have "map (map (map (\<lambda>x. real (unat (astype_uint8 (np_clip 0 255 x)))))) img = img"
  proof (intro map_idI)
    fix plane row x
    assume "plane \<in> set img" "row \<in> set plane" "x \<in> set row"
    with assms have "x \<in> \<int> \<and> 0 \<le> x \<and> x \<le> 255" by blast
    then show "real (unat (astype_uint8 (np_clip 0 255 x))) = x"
      by (simp only: quantize_value_int)
  qed
  then have "to_float (quantize img) = img"
    by (simp del: of_nat_unat add: quantize_def to_float_def ew1_def comp_def Let_def)
  then show ?thesis by (simp add: quantize_to_float)
qed

theorem quantize_idempotent_witness:
  "to_float (quantize [[[0, 128, 255]]]) = [[[0, 128, 255]]]
   \<and> quantize (to_float (quantize [[[0, 128, 255]]])) = quantize [[[0, 128, 255]]]"
proof -
  have h: "\<forall>plane \<in> set [[[0, 128, 255 :: real]]]. \<forall>row \<in> set plane. \<forall>x \<in> set row.
      x \<in> \<int> \<and> 0 \<le> x \<and> x \<le> 255" by simp
  from quantize_idempotent [OF h] show ?thesis .
qed

section \<open>Properties of flow_to_color\<close>

lemma normalize_uv_no_assert: "normalize_uv X m \<noteq> Inl AssertionError"
  by (simp add: normalize_uv_def Let_def split: option.splits)

lemma flow_compute_color_no_assert: "flow_compute_color u v b \<noteq> Inl AssertionError"
  by (simp add: flow_compute_color_def Let_def)

text \<open>
  Claim C8. \<^verbatim>\<open>flow_to_color\<close> fails with an assertion error, and returns nothing, exactly
  when its input does not have four dimensions or its second dimension is not 2; on every
  input of four dimensions whose second dimension is 2 no assertion fires.
\<close>

theorem shape_assertion:
  "flow_to_color flow_uv max_mag clip_flow convert_to_bgr = Inl AssertionError
   \<longleftrightarrow> \<not> (length (shape flow_uv) = 4 \<and> shape flow_uv ! 1 = 2)"
proof (cases "length (shape flow_uv) = 4 \<and> shape flow_uv ! 1 = 2")
  case True
  have "flow_to_color flow_uv max_mag clip_flow convert_to_bgr \<noteq> Inl AssertionError"
  proof (cases "normalize_uv (flow_uv_numpy_of flow_uv) max_mag")
    case (Inl e)
    with True normalize_uv_no_assert [of "flow_uv_numpy_of flow_uv" max_mag] show ?thesis
      by (simp add: flow_to_color_def Let_def)
  next
    case (Inr uv)
    obtain u v where uv: "uv = (u, v)" by (cases uv)
    show ?thesis
    proof (cases "flow_compute_color u v convert_to_bgr")
      case (Inl e)
      with True Inr uv flow_compute_color_no_assert [of u v convert_to_bgr] show ?thesis
        by (simp add: flow_to_color_def Let_def)
    next
      case (Inr color)
      with True \<open>normalize_uv (flow_uv_numpy_of flow_uv) max_mag = Inr uv\<close> uv show ?thesis
        by (simp add: flow_to_color_def Let_def)
    qed
  qed
  with True show ?thesis by simp
next
  case False
  then show ?thesis by (auto simp add: flow_to_color_def)
qed

text \<open>A field with three channels, a field of three dimensions, and a field of one pixel.\<close>

theorem shape_assertion_witness:
  "flow_to_color \<lparr>shape = [1, 3, 1, 1], data = [Fl 0, Fl 0, Fl 0]\<rparr> None None False
     = Inl AssertionError
   \<and> flow_to_color \<lparr>shape = [2, 1, 1], data = [Fl 0, Fl 0]\<rparr> None None False
     = Inl AssertionError
   \<and> flow_to_color \<lparr>shape = [1, 2, 1, 1], data = [Fl 0, Fl 0]\<rparr> None None False
     \<noteq> Inl AssertionError"
  using shape_assertion [of "\<lparr>shape = [1, 3, 1, 1], data = [Fl 0, Fl 0, Fl 0]\<rparr>" None None False]
    shape_assertion [of "\<lparr>shape = [2, 1, 1], data = [Fl 0, Fl 0]\<rparr>" None None False]
    shape_assertion [of "\<lparr>shape = [1, 2, 1, 1], data = [Fl 0, Fl 0]\<rparr>" None None False]
  by simp

subsection \<open>The encoder as a map over the field\<close>

lemma fval_fdiv: "fval (fdiv x s) = fval x / s"
  by (cases x) simp_all

lemma rad_arr_channels: "rad_arr (ew1 f X) (ew1 g X) = ew1 (\<lambda>q. px_rad (f q) (g q)) X"
  by (simp add: rad_arr_def ew1_ew1 ew2_ew1 px_rad_def)


lemma flow_compute_color_channels:
  "flow_compute_color (ew1 f X) (ew1 g X) b = Inr (ew1 (\<lambda>q. px_color b (f q) (g q)) X)"
proof -
  have s: "same_shape (ew1 f X) (ew1 g X)" by (simp add: same_shape_def ew1_shape)
  have "pixels (ew1 f X) (ew1 g X) = ew1 (\<lambda>q. (f q, g q)) X"
    by (simp add: pixels_def ew2_ew1)
  with flow_compute_color_px [OF s, of b] show ?thesis by (simp add: ew1_ew1)
qed

lemma ew1_all_empty: "(\<exists>xs \<in> set (ew1 f X). xs \<noteq> []) \<longleftrightarrow> (\<exists>xs \<in> set X. xs \<noteq> [])"
  by (simp add: ew1_def)

lemma normalize_uv_channels:
  "concat X \<noteq> [] \<Longrightarrow>
   normalize_uv X mm =
     (let s = (case mm of
                 None \<Rightarrow> Max (set (concat (rad_arr (ew1 (\<lambda>px. px ! 0) X) (ew1 (\<lambda>px. px ! 1) X))))
               | Some m \<Rightarrow> m) + epsilon
      in if s = 0 then Inl NonFinite
         else Inr (ew1 (\<lambda>px. fdiv (px ! 0) s) X, ew1 (\<lambda>px. fdiv (px ! 1) s) X))"
  by (cases mm)
    (simp_all add: normalize_uv_def Let_def ew1_ew1 rad_arr_channels concat_ew1 ew1_all_empty)

lemma normalize_uv_scaled:
  assumes X: "concat (flow_uv_numpy_of t) \<noteq> []"
    and s: "s = (case mm of None \<Rightarrow> field_rad_max t | Some m \<Rightarrow> m) + epsilon" and nz: "s \<noteq> 0"
  shows "normalize_uv (flow_uv_numpy_of t) mm
         = Inr (ew1 (\<lambda>px. fdiv (px ! 0) s) (flow_uv_numpy_of t),
                ew1 (\<lambda>px. fdiv (px ! 1) s) (flow_uv_numpy_of t))"
proof (cases mm)
  case None
  with s have "Max (set (concat (rad_arr (ew1 (\<lambda>px. px ! 0) (flow_uv_numpy_of t))
                 (ew1 (\<lambda>px. px ! 1) (flow_uv_numpy_of t))))) + epsilon = s"
    by (simp only: field_rad_max_def Let_def option.case)
  with nz None show ?thesis
    unfolding normalize_uv_channels [OF X] Let_def by (simp only: option.case if_False)
next
  case (Some m)
  with s have "m + epsilon = s" by simp
  with nz Some show ?thesis
    unfolding normalize_uv_channels [OF X] Let_def by (simp only: option.case if_False)
qed

lemma flow_to_color_scaled:
  assumes sh: "shape t = [N, 2, H, W]" and X: "concat (flow_uv_numpy_of t) \<noteq> []"
    and s: "s = (case mm of None \<Rightarrow> field_rad_max t | Some m \<Rightarrow> m) + epsilon" and nz: "s \<noteq> 0"
  shows "flow_to_color t mm c b
         = Inr (color_tensor N H W
                 (ew1 (\<lambda>q. px_color b (fdiv (q ! 0) s) (fdiv (q ! 1) s)) (flow_uv_numpy_of t)))"
proof -
  from sh have "length (shape t) = 4" "shape t ! 1 = 2" "shape t ! 0 = N" "shape t ! 2 = H"
    "shape t ! 3 = W" by simp_all
  then show ?thesis
    by (simp add: flow_to_color_def Let_def normalize_uv_scaled [OF X s nz]
        flow_compute_color_channels)
qed

subsection \<open>The field of zeros\<close>

lemma mult_add_less: "a < A \<Longrightarrow> b < (B::nat) \<Longrightarrow> a * B + b < A * B"
proof -
  assume a: "a < A" and b: "b < B"
  from a have "Suc a * B \<le> A * B" by (intro mult_le_mono1) simp
  with b show ?thesis by simp
qed

lemma idx4_bound:
  assumes "n < N" "c < C" "h < H" "w < (W::nat)"
  shows "((n * C + c) * H + h) * W + w < N * C * H * W"
proof -
  from assms have "n * C + c < N * C" by (simp add: mult_add_less)
  with assms have "(n * C + c) * H + h < N * C * H" by (simp add: mult_add_less)
  with assms show ?thesis by (simp add: mult_add_less)
qed

lemma map_upt_const: "(\<And>i. i < n \<Longrightarrow> f i = c) \<Longrightarrow> map f [0..<n] = replicate n c"
  by (simp add: list_eq_iff_nth_eq)

lemma concat_replicate2: "concat (replicate n (replicate m x)) = replicate (n * m) x"
  by (induction n) (simp_all add: replicate_add)

lemma upt_2: "[0..<2] = [0, 1]"
  by (simp add: upt_rec)

lemma grid_const:
  assumes "\<And>n p. n < N \<Longrightarrow> p < M \<Longrightarrow> F (g n p) = c"
  shows "ew1 F (map (\<lambda>n. map (g n) [0..<M]) [0..<N]) = replicate N (replicate M c)"
proof -
  have row: "map (\<lambda>p. F (g n p)) [0..<M] = replicate M c" if "n < N" for n
    by (rule map_upt_const) (rule assms [OF that])
  have "map (\<lambda>n. map (\<lambda>p. F (g n p)) [0..<M]) [0..<N] = replicate N (replicate M c)"
    by (rule map_upt_const) (rule row)
  then show ?thesis by (simp add: ew1_def comp_def)
qed

lemma numpy_grid:
  "shape t = [N, C, H, W] \<Longrightarrow>
   flow_uv_numpy_of t
     = map (\<lambda>n. map (\<lambda>p. map (\<lambda>c. at4 t n c (p div W) (p mod W)) [0..<C]) [0..<H * W]) [0..<N]"
  by (simp add: flow_uv_numpy_of_def Let_def)

lemma length_concat_grid: "length (concat (map (\<lambda>n. map (g n) [0..<M]) [0..<N])) = N * M"
  by (simp add: length_concat comp_def sum_list_triv)

lemma numpy_nonempty:
  assumes "shape t = [N, C, H, W]" "0 < N * H * W"
  shows "concat (flow_uv_numpy_of t) \<noteq> []"
proof -
  from assms have "length (concat (flow_uv_numpy_of t)) = N * (H * W)"
    by (simp add: numpy_grid length_concat_grid)
  with assms have "0 < length (concat (flow_uv_numpy_of t))" by (simp add: mult.assoc)
  then show ?thesis by (rule length_greater_0_conv [THEN iffD1])
qed

lemma zero_field_pixel:
  assumes sh: "shape t = [N, 2, H, W]" and wf: "wf_tensor t" and z: "\<forall>x \<in> set (data t). fval x = 0"
    and n: "n < N" and p: "p < H * W"
  shows "fval (map (\<lambda>c. at4 t n c (p div W) (p mod W)) [0..<2] ! 0) = 0"
    and "fval (map (\<lambda>c. at4 t n c (p div W) (p mod W)) [0..<2] ! 1) = 0"
proof -
  from sh wf have len: "length (data t) = N * 2 * H * W" by (simp add: wf_tensor_def)
  have el: "fval (at4 t n c (p div W) (p mod W)) = 0" if "c < 2" for c
  proof -
    from p have "0 < W" by (cases W) simp_all
    with p have "p div W < H" "p mod W < W"
      by (simp_all add: less_mult_imp_div_less)
    with n that have "((n * 2 + c) * H + p div W) * W + p mod W < N * 2 * H * W"
      by (intro idx4_bound)
    with len have "data t ! (((n * 2 + c) * H + p div W) * W + p mod W) \<in> set (data t)"
      by simp
    with z sh show ?thesis by (simp add: at4_def)
  qed
  from el [of 0] el [of 1]
  show "fval (map (\<lambda>c. at4 t n c (p div W) (p mod W)) [0..<2] ! 0) = 0"
    and "fval (map (\<lambda>c. at4 t n c (p div W) (p mod W)) [0..<2] ! 1) = 0"
    by (simp_all add: upt_2)
qed

lemma px_rad_zero: "fval x = 0 \<Longrightarrow> fval y = 0 \<Longrightarrow> px_rad x y = 0"
  by (simp add: px_rad_def)

lemma px_color_zero: "fval x = 0 \<Longrightarrow> fval y = 0 \<Longrightarrow> px_color b x y = [255, 255, 255]"
proof -
  assume "fval x = 0" "fval y = 0"
  then have "px_shaded i x y = 1" for i by (simp add: px_shaded_def px_rad_zero)
  then show ?thesis by (simp add: px_color_expand astype_uint8_def c_trunc_def)
qed

lemma zero_field_rad_max:
  assumes sh: "shape t = [N, 2, H, W]" and wf: "wf_tensor t" and z: "\<forall>x \<in> set (data t). fval x = 0"
    and ne: "0 < N * H * W"
  shows "field_rad_max t = 0"
proof -
  let ?g = "\<lambda>n p. map (\<lambda>c. at4 t n c (p div W) (p mod W)) [0..<2]"
  have "ew1 (\<lambda>q. px_rad (q ! 0) (q ! 1)) (map (\<lambda>n. map (?g n) [0..<H * W]) [0..<N])
        = replicate N (replicate (H * W) 0)"
  proof (rule grid_const)
    fix n p assume "n < N" "p < H * W"
    from zero_field_pixel [OF sh wf z this] show "px_rad (?g n p ! 0) (?g n p ! 1) = 0"
      by (rule px_rad_zero)
  qed
  then have "rad_arr (ew1 (\<lambda>px. px ! 0) (flow_uv_numpy_of t)) (ew1 (\<lambda>px. px ! 1) (flow_uv_numpy_of t))
             = replicate N (replicate (H * W) 0)"
    by (simp only: rad_arr_channels numpy_grid [OF sh])
  moreover from ne have "set (concat (replicate N (replicate (H * W) (0::real)))) = {0}"
    by (simp add: concat_replicate2)
  ultimately show ?thesis by (simp only: field_rad_max_def Let_def Max_singleton)
qed

lemma white_tensor:
  "color_tensor N H W (replicate N (replicate (H * W) [255, 255, 255]))
   = \<lparr>shape = [N, 3, H, W], data = replicate (N * 3 * H * W) 255\<rparr>"
proof -
  let ?C = "replicate N (replicate (H * W) [255, 255, 255 :: u8])"
  have el: "?C ! n ! (h * W + w) ! c = 255" if "n < N" "c < 3" "h < H" "w < W" for n c h w
  proof -
    from that have i: "h * W + w < H * W" by (simp add: mult_add_less)
    from that consider "c = 0" | "c = 1" | "c = 2" by linarith
    then have "[255, 255, 255 :: u8] ! c = 255" by cases simp_all
    with i that show ?thesis by simp
  qed
  have "map (\<lambda>w. ?C ! n ! (h * W + w) ! c) [0..<W] = replicate W 255"
    if "n < N" "c < 3" "h < H" for n c h
    using that el by (intro map_upt_const) simp
  then have "concat (map (\<lambda>h. map (\<lambda>w. ?C ! n ! (h * W + w) ! c) [0..<W]) [0..<H])
             = replicate (H * W) 255" if "n < N" "c < 3" for n c
    using that map_upt_const [of H "\<lambda>h. map (\<lambda>w. ?C ! n ! (h * W + w) ! c) [0..<W]" "replicate W 255"]
    by (simp add: concat_replicate2)
  then have "concat (map (\<lambda>c. concat (map (\<lambda>h. map (\<lambda>w. ?C ! n ! (h * W + w) ! c) [0..<W]) [0..<H])) [0..<3])
             = replicate (3 * (H * W)) 255" if "n < N" for n
    using that map_upt_const [of 3 "\<lambda>c. concat (map (\<lambda>h. map (\<lambda>w. ?C ! n ! (h * W + w) ! c) [0..<W]) [0..<H])" "replicate (H * W) 255"]
    by (simp add: concat_replicate2)
  then have "concat (map (\<lambda>n. concat (map (\<lambda>c. concat (map (\<lambda>h. map (\<lambda>w. ?C ! n ! (h * W + w) ! c) [0..<W]) [0..<H])) [0..<3])) [0..<N])
             = replicate (N * (3 * (H * W))) 255"
    using map_upt_const [of N "\<lambda>n. concat (map (\<lambda>c. concat (map (\<lambda>h. map (\<lambda>w. ?C ! n ! (h * W + w) ! c) [0..<W]) [0..<H])) [0..<3])" "replicate (3 * (H * W)) 255"]
    by (simp add: concat_replicate2)
  then show ?thesis by (simp add: color_tensor_def mult.assoc)
qed

lemma zero_flow_to_color:
  assumes sh: "shape t = [N, 2, H, W]" and wf: "wf_tensor t" and z: "\<forall>x \<in> set (data t). fval x = 0"
    and ne: "0 < N * H * W" and mm: "max_mag \<noteq> Some (- epsilon)"
  shows "flow_to_color t max_mag clip_flow b
         = Inr \<lparr>shape = [N, 3, H, W], data = replicate (N * 3 * H * W) 255\<rparr>"
proof -
  define s where "s = (case max_mag of None \<Rightarrow> field_rad_max t | Some m \<Rightarrow> m) + epsilon"
  have nz: "s \<noteq> 0"
  proof (cases max_mag)
    case None
    then show ?thesis by (simp add: s_def zero_field_rad_max [OF sh wf z ne] epsilon_def)
  next
    case (Some m)
    with mm show ?thesis by (auto simp add: s_def)
  qed
  let ?g = "\<lambda>n p. map (\<lambda>c. at4 t n c (p div W) (p mod W)) [0..<2]"
  have "ew1 (\<lambda>q. px_color b (fdiv (q ! 0) s) (fdiv (q ! 1) s)) (map (\<lambda>n. map (?g n) [0..<H * W]) [0..<N])
        = replicate N (replicate (H * W) [255, 255, 255])"
  proof (rule grid_const)
    fix n p assume "n < N" "p < H * W"
    from zero_field_pixel [OF sh wf z this]
    show "px_color b (fdiv (?g n p ! 0) s) (fdiv (?g n p ! 1) s) = [255, 255, 255]"
      by (intro px_color_zero) (simp_all only: fval_fdiv div_0)
  qed
  then have "ew1 (\<lambda>q. px_color b (fdiv (q ! 0) s) (fdiv (q ! 1) s)) (flow_uv_numpy_of t)
        = replicate N (replicate (H * W) [255, 255, 255])"
    by (simp only: numpy_grid [OF sh])
  with flow_to_color_scaled [OF sh numpy_nonempty [OF sh ne] s_def nz, of clip_flow b]
  show ?thesis by (simp only: white_tensor)
qed

lemma white_permuted:
  "map (\<lambda>h. map (\<lambda>w. map (\<lambda>c. at4 \<lparr>shape = [1, 3, H, W], data = replicate (1 * 3 * H * W) (255 :: u8)\<rparr> 0 c h w)
        [0..<3]) [0..<W]) [0..<H]
   = replicate H (replicate W [255, 255, 255])"
proof -
  let ?t = "\<lparr>shape = [1, 3, H, W], data = replicate (1 * 3 * H * W) (255 :: u8)\<rparr>"
  have el: "at4 ?t 0 c h w = 255" if "c < 3" "h < H" "w < W" for c h w
  proof -
    from that have "((0 * 3 + c) * H + h) * W + w < 1 * 3 * H * W"
      by (intro idx4_bound) simp_all
    then show ?thesis by (simp add: at4_def)
  qed
  have px: "map (\<lambda>c. at4 ?t 0 c h w) [0..<3] = [255, 255, 255]" if "h < H" "w < W" for h w
    using that el [of 0 h w] el [of 1 h w] el [of 2 h w] by (simp add: upt_3)
  have row: "map (\<lambda>w. map (\<lambda>c. at4 ?t 0 c h w) [0..<3]) [0..<W] = replicate W [255, 255, 255]"
    if "h < H" for h
    by (rule map_upt_const) (rule px [OF that])
  show ?thesis by (rule map_upt_const) (rule row)
qed

lemma zero_flow2img:
  assumes sh: "shape t = [2, H, W]" and wf: "wf_tensor t" and z: "\<forall>x \<in> set (data t). fval x = 0"
    and ne: "0 < H * W"
  shows "flow2img t = Inr (replicate H (replicate W [255, 255, 255]))"
proof -
  let ?t = "t\<lparr>shape := 1 # shape t\<rparr>"
  from sh have sh': "shape ?t = [1, 2, H, W]" by simp
  from sh wf have wf': "wf_tensor ?t" by (simp add: wf_tensor_def)
  from z have z': "\<forall>x \<in> set (data ?t). fval x = 0" by simp
  from ne have ne': "0 < 1 * H * W" by simp
  have "None \<noteq> Some (- epsilon)" by simp
  from zero_flow_to_color [OF sh' wf' z' ne' this, of None False]
  show ?thesis
    by (simp add: flow2img_def Let_def white_permuted [simplified] quantize_to_float)
qed

text \<open>
  Claim C4. On a field that is zero everywhere (and has at least one pixel) the encoder
  returns the image whose every value, in every channel, is 255; so does \<^verbatim>\<open>flow2img\<close> on a
  single field. (\<open>rad\<close> is 0 at every pixel, the shading gives 1, and \<open>floor(255 * 1) = 255\<close>.)
  The zeros of the field may have either sign.
\<close>

theorem zero_flow_is_white:
  assumes "shape t = [N, 2, H, W]" "wf_tensor t" "\<forall>x \<in> set (data t). fval x = 0" "0 < N * H * W"
    and "max_mag \<noteq> Some (- epsilon)"
  shows "flow_to_color t max_mag clip_flow convert_to_bgr
           = Inr \<lparr>shape = [N, 3, H, W], data = replicate (N * 3 * H * W) 255\<rparr>
       \<and> (N = 1 \<longrightarrow> flow2img (t\<lparr>shape := [2, H, W]\<rparr>)
                       = Inr (replicate H (replicate W [255, 255, 255])))"
proof
  from assms show "flow_to_color t max_mag clip_flow convert_to_bgr
           = Inr \<lparr>shape = [N, 3, H, W], data = replicate (N * 3 * H * W) 255\<rparr>"
    by (rule zero_flow_to_color)
  show "N = 1 \<longrightarrow> flow2img (t\<lparr>shape := [2, H, W]\<rparr>)
                       = Inr (replicate H (replicate W [255, 255, 255]))"
  proof
    assume "N = 1"
    with assms have "wf_tensor (t\<lparr>shape := [2, H, W]\<rparr>)" "0 < H * W"
      by (simp_all add: wf_tensor_def)
    with assms show "flow2img (t\<lparr>shape := [2, H, W]\<rparr>)
                       = Inr (replicate H (replicate W [255, 255, 255]))"
      by (intro zero_flow2img) simp_all
  qed
qed

text \<open>The zero field of one row and two pixels, one of its zeros negative.\<close>

theorem zero_flow_is_white_witness:
  "flow_to_color \<lparr>shape = [1, 2, 1, 2], data = [Fl 0, Fl 0, NegZero, Fl 0]\<rparr> None None False
     = Inr \<lparr>shape = [1, 3, 1, 2], data = [255, 255, 255, 255, 255, 255]\<rparr>
   \<and> flow2img \<lparr>shape = [2, 1, 2], data = [Fl 0, Fl 0, NegZero, Fl 0]\<rparr>
     = Inr [[[255, 255, 255], [255, 255, 255]]]"
proof -
  let ?t = "\<lparr>shape = [1, 2, 1, 2], data = [Fl 0, Fl 0, NegZero, Fl 0]\<rparr>"
  have h: "shape ?t = [1, 2, 1, 2]" "wf_tensor ?t" "\<forall>x \<in> set (data ?t). fval x = 0"
    "0 < (1::nat) * 1 * 2" "None \<noteq> Some (- epsilon)"
    by (simp_all add: wf_tensor_def)
  from zero_flow_is_white [OF h, of None False] show ?thesis
    by (simp add: numeral_eq_Suc)
qed

subsection \<open>Fields of one pixel\<close>

lemma single_pixel_numpy:
  "flow_uv_numpy_of \<lparr>shape = [1, 2, 1, 1], data = [a, b]\<rparr> = [[[a, b]]]"
  by (simp add: flow_uv_numpy_of_def at4_def upt_2 Let_def)

lemma field_rad_max_single:
  "field_rad_max \<lparr>shape = [1, 2, 1, 1], data = [a, b]\<rparr> = px_rad a b"
  by (simp del: One_nat_def
      add: field_rad_max_def single_pixel_numpy ew1_def rad_arr_def ew2_def px_rad_def Let_def)

lemma single_pixel_tensor:
  "color_tensor 1 1 1 [[[r, g, b]]] = \<lparr>shape = [1, 3, 1, 1], data = [r, g, b]\<rparr>"
  by (simp add: color_tensor_def upt_3)

lemma single_pixel_flow_to_color:
  assumes s: "s = (case mm of None \<Rightarrow> px_rad a b | Some m \<Rightarrow> m) + epsilon" and nz: "s \<noteq> 0"
  shows "flow_to_color \<lparr>shape = [1, 2, 1, 1], data = [a, b]\<rparr> mm c bgr
         = Inr (color_tensor 1 1 1 [[px_color bgr (fdiv a s) (fdiv b s)]])"
proof -
  let ?t = "\<lparr>shape = [1, 2, 1, 1], data = [a, b]\<rparr>"
  have sh: "shape ?t = [1, 2, 1, 1]" by simp
  have X: "concat (flow_uv_numpy_of ?t) \<noteq> []" by (simp only: single_pixel_numpy) simp
  from s have s': "s = (case mm of None \<Rightarrow> field_rad_max ?t | Some m \<Rightarrow> m) + epsilon"
    by (simp only: field_rad_max_single)
  have "ew1 (\<lambda>q. px_color bgr (fdiv (q ! 0) s) (fdiv (q ! 1) s)) [[[a, b]]]
        = [[px_color bgr (fdiv a s) (fdiv b s)]]"
    by (simp add: ew1_def)
  with flow_to_color_scaled [OF sh X s' nz, of c bgr] show ?thesis
    by (simp only: single_pixel_numpy)
qed

lemma fval_fneg: "fval (fneg x) = - fval x"
  by (cases x) simp_all

lemma px_rad_axis: "fval x = 0 \<Longrightarrow> px_rad x y = \<bar>fval y\<bar>"
  by (simp add: px_rad_def)


lemma px_a_down: "fval x = 0 \<Longrightarrow> fval y < 0 \<Longrightarrow> px_a x y = 1 / 2"
  by (simp add: px_a_def arctan2_def fval_fneg)

lemma wheel_40_41:
  "map (\<lambda>i. np_index (map (\<lambda>row. row ! i) make_colorwheel) 40) [0, 1, 2] = [78, 0, 255]"
  "map (\<lambda>i. np_index (map (\<lambda>row. row ! i) make_colorwheel) 41) [0, 1, 2] = [98, 0, 255]"
  unfolding make_colorwheel_eval by (simp_all add: np_index_def)

lemma px_down_indices:
  assumes "fval x = 0" "fval y < 0"
  shows "px_k0 x y = 40" "px_k1 x y = 41" "px_f x y = 1 / 2"
proof -
  from assms have fk: "px_fk x y = 81 / 2" by (simp add: px_fk_def px_a_down ncols_eq)
  show k0: "px_k0 x y = 40" unfolding px_k0_def fk by simp
  show "px_k1 x y = 41" unfolding px_k1_def k0 ncols_eq by simp
  show "px_f x y = 1 / 2" unfolding px_f_def fk k0 by simp
qed

lemma px_down_base:
  assumes "fval x = 0" "fval y < 0"
  shows "px_base 0 x y = 88 / 255" "px_base 1 x y = 0" "px_base 2 x y = 1"
  using wheel_40_41 by (simp_all del: One_nat_def add: px_base_def px_down_indices [OF assms])

lemma px_color_down:
  "px_color False (Fl 0) (Fl (- (100000 / 100001))) = [88, 0, 255]"
proof -
  let ?x = "Fl 0" and ?y = "Fl (- (100000 / 100001))"
  have y: "fval ?x = 0" "fval ?y < 0" by simp_all
  have r: "px_rad ?x ?y = 100000 / 100001" by (simp add: px_rad_axis)
  have s: "px_shaded 0 ?x ?y = 1 - (100000 / 100001) * (167 / 255)"
    "px_shaded 1 ?x ?y = 1 / 100001" "px_shaded 2 ?x ?y = 1"
    by (simp_all del: One_nat_def add: px_shaded_def r px_down_base [OF y])
  have "\<lfloor>255 * px_shaded 0 ?x ?y\<rfloor> = 88" "\<lfloor>255 * px_shaded 1 ?x ?y\<rfloor> = 0"
    "\<lfloor>255 * px_shaded 2 ?x ?y\<rfloor> = 255"
    unfolding s by simp_all
  then show ?thesis by (simp del: One_nat_def add: px_color_expand astype_uint8_def c_trunc_def)
qed

text \<open>
  Claim C1. With a clip value, the encoder's output should be its output on the field
  clamped elementwise into \<open>[0, clip]\<close>. The code at the field of one pixel \<open>(u, v) = (0, -1)\<close>
  with \<open>clip_flow = 1\<close>: the output is the output without a clip value, \<open>(88, 0, 255)\<close>, and not
  that of the clamped field \<open>(0, 0)\<close>, which is white.
\<close>

theorem clip_flow_unused:
  "flow_to_color \<lparr>shape = [1, 2, 1, 1], data = [Fl 0, Fl (- 1)]\<rparr> None (Some 1) False
     = Inr \<lparr>shape = [1, 3, 1, 1], data = [88, 0, 255]\<rparr>
   \<and> flow_to_color \<lparr>shape = [1, 2, 1, 1], data = [Fl 0, Fl (- 1)]\<rparr> None None False
     = Inr \<lparr>shape = [1, 3, 1, 1], data = [88, 0, 255]\<rparr>
   \<and> flow_to_color \<lparr>shape = [1, 2, 1, 1], data = map (clip_float 0 1) [Fl 0, Fl (- 1)]\<rparr>
        None (Some 1) False
     = Inr \<lparr>shape = [1, 3, 1, 1], data = [255, 255, 255]\<rparr>"
proof -
  have s: "100001 / 100000 = (case None of None \<Rightarrow> px_rad (Fl 0) (Fl (- 1)) | Some m \<Rightarrow> m) + epsilon"
    by (simp add: px_rad_axis epsilon_def)
  have nz: "(100001 / 100000 :: real) \<noteq> 0" by simp
  have d: "fdiv (Fl 0) (100001 / 100000) = Fl 0"
    "fdiv (Fl (- 1)) (100001 / 100000) = Fl (- (100000 / 100001))"
    by simp_all
  have raw: "flow_to_color \<lparr>shape = [1, 2, 1, 1], data = [Fl 0, Fl (- 1)]\<rparr> None c False
     = Inr \<lparr>shape = [1, 3, 1, 1], data = [88, 0, 255]\<rparr>" for c
    by (simp only: single_pixel_flow_to_color [OF s nz] d px_color_down single_pixel_tensor)
  have "map (clip_float 0 1) [Fl 0, Fl (- 1)] = [Fl 0, Fl 0]"
    by (simp add: clip_float_def np_clip_def)
  moreover have "flow_to_color \<lparr>shape = [1, 2, 1, 1], data = [Fl 0, Fl 0]\<rparr> None (Some 1) False
     = Inr \<lparr>shape = [1, 3, 1, 1], data = replicate (1 * 3 * 1 * 1) 255\<rparr>"
    by (rule zero_flow_to_color) (simp_all add: wf_tensor_def)
  ultimately show ?thesis using raw by (simp add: numeral_3_eq_3)
qed

subsection \<open>The magnitude cap\<close>













end
